theory Spec2Isabelle
  imports Main "HOL-Library.Word"
begin

unbundle bit_operations_syntax

section \<open>LED blink speed control on an STM32F446RE (Core/Src/main.c)\<close>

text \<open>
  The program is a sequence of peripheral set-up calls followed by an idle loop, and two
  interrupt service routines. Every statement is an access to a memory-mapped register
  or to the global \<^verbatim>\<open>speed\<close>. The embedding below follows main.c function by
  function; each C statement is one line of a \<open>let\<close> chain.
\<close>

subsection \<open>Machine integers and constants (main.c lines 15-58)\<close>

type_synonym u8 = "8 word"
type_synonym u32 = "32 word"

definition HIGH_SPEED :: u32 where "HIGH_SPEED = 4000000"
definition MEDIUM_SPEED :: u32 where "MEDIUM_SPEED = 8000000"
definition LOW_SPEED :: u32 where "LOW_SPEED = 16000000"

definition RCC_BASE :: u32 where "RCC_BASE = 0x40023800"
definition SYSTICK_BASE :: u32 where "SYSTICK_BASE = 0xE000E010"
definition SYSCFG_BASE :: u32 where "SYSCFG_BASE = 0x40013800"
definition EXTI_BASE :: u32 where "EXTI_BASE = 0x40013C00"
definition NVIC_BASE :: u32 where "NVIC_BASE = 0xE000E100"
definition GPIOA_BASE :: u32 where "GPIOA_BASE = 0x40020000"
definition GPIOC_BASE :: u32 where "GPIOC_BASE = 0x40020800"

text \<open>
  A register macro \<^verbatim>\<open>(*(volatile uint32_t*)(BASE + off))\<close> is modelled by its address;
  the dereference is \<open>load\<close> or \<open>store\<close> below.
\<close>

definition RCC_AHB1ENR :: u32 where "RCC_AHB1ENR = RCC_BASE + 0x30"
definition RCC_APB2ENR :: u32 where "RCC_APB2ENR = RCC_BASE + 0x44"

definition SYSTICK_CTRL :: u32 where "SYSTICK_CTRL = SYSTICK_BASE + 0x00"
definition SYSTICK_RELOAD :: u32 where "SYSTICK_RELOAD = SYSTICK_BASE + 0x04"
definition SYSTICK_CURRENT :: u32 where "SYSTICK_CURRENT = SYSTICK_BASE + 0x08"

definition SYSCFG_EXTICR4 :: u32 where "SYSCFG_EXTICR4 = SYSCFG_BASE + 0x14"

definition EXTI_IMR :: u32 where "EXTI_IMR = EXTI_BASE + 0x00"
definition EXTI_EMR :: u32 where "EXTI_EMR = EXTI_BASE + 0x04"
definition EXTI_RTSR :: u32 where "EXTI_RTSR = EXTI_BASE + 0x08"
definition EXTI_FTSR :: u32 where "EXTI_FTSR = EXTI_BASE + 0x0C"
definition EXTI_PR :: u32 where "EXTI_PR = EXTI_BASE + 0x14"

definition NVIC_ISER1 :: u32 where "NVIC_ISER1 = NVIC_BASE + 0x04"

definition GPIOA_MODER :: u32 where "GPIOA_MODER = GPIOA_BASE + 0x00"
definition GPIOA_OTYPER :: u32 where "GPIOA_OTYPER = GPIOA_BASE + 0x04"
definition GPIOA_OSPEEDER :: u32 where "GPIOA_OSPEEDER = GPIOA_BASE + 0x08"
definition GPIOA_PUPDR :: u32 where "GPIOA_PUPDR = GPIOA_BASE + 0x0C"
definition GPIOA_ODR :: u32 where "GPIOA_ODR = GPIOA_BASE + 0x14"

definition GPIOC_MODER :: u32 where "GPIOC_MODER = GPIOC_BASE + 0x00"
definition GPIOC_PUPDR :: u32 where "GPIOC_PUPDR = GPIOC_BASE + 0x0C"

subsection \<open>The machine: registers, the global \<open>speed\<close>, and the log of accesses\<close>

text \<open>
  All accesses in main.c are volatile, so each one is an observable event. The state
  carries the register contents (by address), the global \<^verbatim>\<open>speed\<close> (main.c line 62) and
  the log of events so far, oldest first. \<open>Call f args\<close> records the entry into a
  function of main.c.
\<close>

datatype event =
    Call string "u32 list"
  | Read u32 u32
  | Write u32 u32
  | ReadSpeed u8
  | WriteSpeed u8

record machine =
  mem :: "u32 \<Rightarrow> u32"
  speed :: u8
  trace :: "event list"

text \<open>
  What a register holds after a 32-bit write of \<open>v\<close> when it held \<open>old\<close>. The EXTI
  pending register is the one register of this program whose write is not a plain store:
  on the STM32F4 each of its bits is cleared by writing 1 to it and left alone by
  writing 0 (the behaviour the comment "Clear pending interrupt" at main.c line 155
  relies on). Every other register is modelled as storage: it holds the value last
  written.
\<close>

definition bus_write :: "u32 \<Rightarrow> u32 \<Rightarrow> u32 \<Rightarrow> u32" where
  "bus_write a old v = (if a = EXTI_PR then old AND NOT v else v)"

definition enter :: "string \<Rightarrow> u32 list \<Rightarrow> machine \<Rightarrow> machine" where
  "enter f args s = s\<lparr>trace := trace s @ [Call f args]\<rparr>"

definition load :: "u32 \<Rightarrow> machine \<Rightarrow> u32 \<times> machine" where
  "load a s = (mem s a, s\<lparr>trace := trace s @ [Read a (mem s a)]\<rparr>)"

definition store :: "u32 \<Rightarrow> u32 \<Rightarrow> machine \<Rightarrow> machine" where
  "store a v s =
     s\<lparr>mem := (mem s)(a := bus_write a (mem s a) v), trace := trace s @ [Write a v]\<rparr>"

definition load_speed :: "machine \<Rightarrow> u8 \<times> machine" where
  "load_speed s = (speed s, s\<lparr>trace := trace s @ [ReadSpeed (speed s)]\<rparr>)"

definition store_speed :: "u8 \<Rightarrow> machine \<Rightarrow> machine" where
  "store_speed v s = s\<lparr>speed := v, trace := trace s @ [WriteSpeed v]\<rparr>"

text \<open>The compound assignments \<^verbatim>\<open>REG |= v\<close>, \<^verbatim>\<open>REG &= v\<close> and \<^verbatim>\<open>REG ^= v\<close>: one read, one write.\<close>

definition or_assign :: "u32 \<Rightarrow> u32 \<Rightarrow> machine \<Rightarrow> machine" where
  "or_assign a v s = (case load a s of (x, s') \<Rightarrow> store a (x OR v) s')"

definition and_assign :: "u32 \<Rightarrow> u32 \<Rightarrow> machine \<Rightarrow> machine" where
  "and_assign a v s = (case load a s of (x, s') \<Rightarrow> store a (x AND v) s')"

definition xor_assign :: "u32 \<Rightarrow> u32 \<Rightarrow> machine \<Rightarrow> machine" where
  "xor_assign a v s = (case load a s of (x, s') \<Rightarrow> store a (x XOR v) s')"

subsection \<open>Peripheral initialisation (main.c lines 89-142)\<close>

definition RCC_Init :: "machine \<Rightarrow> machine" where
  "RCC_Init s0 =
     (let s1 = enter ''RCC_Init'' [] s0;
          s2 = or_assign RCC_AHB1ENR (push_bit 0 1) s1;
          s3 = or_assign RCC_AHB1ENR (push_bit 2 1) s2;
          s4 = or_assign RCC_APB2ENR (push_bit 14 1) s3
      in s4)"

definition GPIOA_Init :: "machine \<Rightarrow> machine" where
  "GPIOA_Init s0 =
     (let s1 = enter ''GPIOA_Init'' [] s0;
          s2 = and_assign GPIOA_MODER (NOT (push_bit (5 * 2) 3)) s1;
          s3 = or_assign GPIOA_MODER (push_bit (5 * 2) 1) s2;
          s4 = and_assign GPIOA_OTYPER (NOT (push_bit 5 1)) s3;
          s5 = and_assign GPIOA_OSPEEDER (NOT (push_bit (5 * 2) 3)) s4;
          s6 = and_assign GPIOA_PUPDR (NOT (push_bit (5 * 2) 3)) s5
      in s6)"

definition GPIOC_Init :: "machine \<Rightarrow> machine" where
  "GPIOC_Init s0 =
     (let s1 = enter ''GPIOC_Init'' [] s0;
          s2 = and_assign GPIOC_MODER (NOT (push_bit (13 * 2) 3)) s1;
          s3 = and_assign GPIOC_PUPDR (NOT (push_bit (13 * 2) 3)) s2;
          s4 = or_assign GPIOC_PUPDR (push_bit (13 * 2) 1) s3
      in s4)"

text \<open>\<^verbatim>\<open>ticks - 1\<close> is \<^verbatim>\<open>uint32_t\<close> arithmetic: at \<open>ticks = 0\<close> it wraps to \<open>0xFFFFFFFF\<close>.\<close>

definition SysTick_Set_Counter :: "u32 \<Rightarrow> machine \<Rightarrow> machine" where
  "SysTick_Set_Counter ticks s0 =
     (let s1 = enter ''SysTick_Set_Counter'' [ticks] s0;
          s2 = store SYSTICK_RELOAD (ticks - 1) s1;
          s3 = store SYSTICK_CURRENT 0 s2
      in s3)"

definition SysTick_Init :: "u32 \<Rightarrow> machine \<Rightarrow> machine" where
  "SysTick_Init ticks s0 =
     (let s1 = enter ''SysTick_Init'' [ticks] s0;
          s2 = SysTick_Set_Counter ticks s1;
          s3 = or_assign SYSTICK_CTRL (push_bit 2 1) s2;
          s4 = or_assign SYSTICK_CTRL (push_bit 1 1) s3;
          s5 = or_assign SYSTICK_CTRL (push_bit 0 1) s4
      in s5)"

definition EXTI13_Init :: "machine \<Rightarrow> machine" where
  "EXTI13_Init s0 =
     (let s1 = enter ''EXTI13_Init'' [] s0;
          s2 = or_assign NVIC_ISER1 (push_bit (40 - 32) 1) s1;
          s3 = and_assign SYSCFG_EXTICR4 (NOT (push_bit 4 0xF)) s2;
          s4 = or_assign SYSCFG_EXTICR4 (push_bit 4 0x2) s3;
          s5 = and_assign EXTI_EMR (NOT (push_bit 13 1)) s4;
          s6 = and_assign EXTI_RTSR (NOT (push_bit 13 1)) s5;
          s7 = or_assign EXTI_FTSR (push_bit 13 1) s6;
          s8 = or_assign EXTI_IMR (push_bit 13 1) s7
      in s8)"

subsection \<open>Interrupt service routines (main.c lines 147-171)\<close>

definition SysTick_Handler :: "machine \<Rightarrow> machine" where
  "SysTick_Handler s0 =
     (let s1 = enter ''SysTick_Handler'' [] s0;
          s2 = xor_assign GPIOA_ODR (push_bit 5 1) s1
      in s2)"

text \<open>
  \<^verbatim>\<open>speed = (speed % 3) + 1\<close>: the \<^verbatim>\<open>uint8_t\<close> is promoted to \<^verbatim>\<open>int\<close>, the arithmetic
  is done there, and the result is converted back to \<^verbatim>\<open>uint8_t\<close>. The \<^verbatim>\<open>switch\<close>
  reads \<^verbatim>\<open>speed\<close> again and has no \<^verbatim>\<open>default\<close>: a value outside 1..3 falls through.
\<close>

definition EXTI15_10_IRQHandler :: "machine \<Rightarrow> machine" where
  "EXTI15_10_IRQHandler s0 =
     (let s1 = enter ''EXTI15_10_IRQHandler'' [] s0;
          s2 = or_assign EXTI_PR (push_bit 13 1) s1;
          (v, s3) = load_speed s2;
          s4 = store_speed (word_of_int (uint v mod 3 + 1)) s3;
          (w, s5) = load_speed s4
      in if w = 1 then SysTick_Set_Counter HIGH_SPEED s5
         else if w = 2 then SysTick_Set_Counter MEDIUM_SPEED s5
         else if w = 3 then SysTick_Set_Counter LOW_SPEED s5
         else s5)"

subsection \<open>The main function (main.c lines 75-84)\<close>

text \<open>
  \<^verbatim>\<open>main\<close> may not return, so its result says whether it has: \<open>Returned s\<close> when
  control has left \<^verbatim>\<open>main\<close> in state \<open>s\<close>, \<open>Running s\<close> when it is still executing, in
  state \<open>s\<close>, after the number of loop iterations it was given.
\<close>

datatype outcome = Returned machine | Running machine

text \<open>
  \<^verbatim>\<open>while (1);\<close> (line 83): the condition is the constant 1 and the body is empty. An
  iteration tests the condition and, as it is not zero, goes round again in the same
  state; were it zero, the loop would end and \<^verbatim>\<open>main\<close> would return. The first argument
  bounds the iterations looked at.
\<close>

fun while_1 :: "nat \<Rightarrow> machine \<Rightarrow> outcome" where
  "while_1 0 s = Running s"
| "while_1 (Suc n) s = (if (1 :: int) = 0 then Returned s else while_1 n s)"

definition main :: "nat \<Rightarrow> machine \<Rightarrow> outcome" where
  "main n s0 =
     (let s1 = RCC_Init s0;
          s2 = GPIOA_Init s1;
          s3 = GPIOC_Init s2;
          s4 = SysTick_Init HIGH_SPEED s3;
          s5 = EXTI13_Init s4
      in while_1 n s5)"

text \<open>
  The state in which \<^verbatim>\<open>main\<close> reaches its loop: the five calls of lines 77-81, in
  program order.
\<close>

definition startup :: "machine \<Rightarrow> machine" where
  "startup s0 =
     (let s1 = RCC_Init s0;
          s2 = GPIOA_Init s1;
          s3 = GPIOC_Init s2;
          s4 = SysTick_Init HIGH_SPEED s3;
          s5 = EXTI13_Init s4
      in s5)"

subsection \<open>Reset and interrupt-driven execution\<close>

text \<open>
  At entry to \<^verbatim>\<open>main\<close> the global holds its initialiser, \<^verbatim>\<open>speed = 1\<close> (line 62); the
  registers hold whatever the hardware reset left, and nothing has been logged.
  After the set-up the processor idles and the only code that runs is the two handlers,
  one invocation per interrupt taken; both have the same default priority, so neither
  preempts the other and an invocation runs to completion.
\<close>

definition reset :: "(u32 \<Rightarrow> u32) \<Rightarrow> machine" where
  "reset m = \<lparr>mem = m, speed = 1, trace = []\<rparr>"

datatype irq = SysTick_IRQ | EXTI15_10_IRQ

fun isr :: "irq \<Rightarrow> machine \<Rightarrow> machine" where
  "isr SysTick_IRQ s = SysTick_Handler s"
| "isr EXTI15_10_IRQ s = EXTI15_10_IRQHandler s"

fun run :: "irq list \<Rightarrow> machine \<Rightarrow> machine" where
  "run [] s = s"
| "run (i # irqs) s = run irqs (isr i s)"

text \<open>
  The outline of a log: the functions entered and the registers written, in order, with
  the values and the reads left out.
\<close>

fun outline :: "event list \<Rightarrow> (string + u32) list" where
  "outline [] = []"
| "outline (Call f args # es) = Inl f # outline es"
| "outline (Write a v # es) = Inr a # outline es"
| "outline (_ # es) = outline es"

text \<open>The accesses to one register in a log, in order.\<close>

fun accesses_of :: "u32 \<Rightarrow> event list \<Rightarrow> event list" where
  "accesses_of a [] = []"
| "accesses_of a (Read b v # es) = (if a = b then [Read b v] else []) @ accesses_of a es"
| "accesses_of a (Write b v # es) = (if a = b then [Write b v] else []) @ accesses_of a es"
| "accesses_of a (_ # es) = accesses_of a es"

text \<open>
  The relation between \<^verbatim>\<open>speed\<close> and the reload register that the \<^verbatim>\<open>switch\<close> of the
  speed-change handler establishes: case 1 programs \<open>HIGH_SPEED\<close>, case 2
  \<open>MEDIUM_SPEED\<close>, case 3 \<open>LOW_SPEED\<close>, and \<open>SysTick_Set_Counter\<close> stores the count
  less one.
\<close>

definition reload_matches :: "machine \<Rightarrow> bool" where
  "reload_matches s \<longleftrightarrow>
     speed s = 1 \<and> mem s SYSTICK_RELOAD = HIGH_SPEED - 1
   \<or> speed s = 2 \<and> mem s SYSTICK_RELOAD = MEDIUM_SPEED - 1
   \<or> speed s = 3 \<and> mem s SYSTICK_RELOAD = LOW_SPEED - 1"

text \<open>A register file with every register zero, for concrete evaluations.\<close>

definition zero_mem :: "u32 \<Rightarrow> u32" where
  "zero_mem a = 0"

section \<open>Basic facts\<close>

lemmas reg_defs =
  RCC_BASE_def SYSTICK_BASE_def SYSCFG_BASE_def EXTI_BASE_def NVIC_BASE_def
  GPIOA_BASE_def GPIOC_BASE_def
  RCC_AHB1ENR_def RCC_APB2ENR_def SYSTICK_CTRL_def SYSTICK_RELOAD_def
  SYSTICK_CURRENT_def SYSCFG_EXTICR4_def EXTI_IMR_def EXTI_EMR_def EXTI_RTSR_def
  EXTI_FTSR_def EXTI_PR_def NVIC_ISER1_def GPIOA_MODER_def GPIOA_OTYPER_def
  GPIOA_OSPEEDER_def GPIOA_PUPDR_def GPIOA_ODR_def GPIOC_MODER_def GPIOC_PUPDR_def

lemmas access_defs =
  enter_def load_def store_def load_speed_def store_speed_def
  or_assign_def and_assign_def xor_assign_def

lemma while_1_Running: "while_1 n s = Running s"
  by (induction n) simp_all

lemma outline_append: "outline (xs @ ys) = outline xs @ outline ys"
  by (induction xs rule: outline.induct) simp_all

lemma w1c_all: "x AND NOT x AND (c::u32) = 0"
  by (simp flip: and.assoc)

lemma succ_range: "(word_of_int (uint (v::u8) mod 3 + 1) :: u8) \<in> {1, 2, 3}"
proof -
  have "uint v mod 3 = 0 \<or> uint v mod 3 = 1 \<or> uint v mod 3 = 2"
    by presburger
  then show ?thesis
    by auto
qed

subsection \<open>Effect of the access primitives\<close>

lemma mem_enter: "mem (enter f args s) = mem s"
  by (simp add: access_defs)

lemma mem_or_assign:
  "a \<noteq> EXTI_PR \<Longrightarrow> mem (or_assign a v s) = (mem s)(a := mem s a OR v)"
  by (simp add: access_defs bus_write_def)

lemma mem_and_assign:
  "a \<noteq> EXTI_PR \<Longrightarrow> mem (and_assign a v s) = (mem s)(a := mem s a AND v)"
  by (simp add: access_defs bus_write_def)

lemma mem_xor_assign:
  "a \<noteq> EXTI_PR \<Longrightarrow> mem (xor_assign a v s) = (mem s)(a := mem s a XOR v)"
  by (simp add: access_defs bus_write_def)

lemma speed_assign:
  "speed (or_assign a v s) = speed s"
  "speed (and_assign a v s) = speed s"
  "speed (xor_assign a v s) = speed s"
  "speed (enter f args s) = speed s"
  by (simp_all add: access_defs)

lemma trace_assign:
  "trace (or_assign a v s) = trace s @ [Read a (mem s a), Write a (mem s a OR v)]"
  "trace (and_assign a v s) = trace s @ [Read a (mem s a), Write a (mem s a AND v)]"
  "trace (xor_assign a v s) = trace s @ [Read a (mem s a), Write a (mem s a XOR v)]"
  "trace (enter f args s) = trace s @ [Call f args]"
  by (simp_all add: access_defs)

lemma outline_assign:
  "outline (trace (or_assign a v s)) = outline (trace s) @ [Inr a]"
  "outline (trace (and_assign a v s)) = outline (trace s) @ [Inr a]"
  "outline (trace (xor_assign a v s)) = outline (trace s) @ [Inr a]"
  "outline (trace (enter f args s)) = outline (trace s) @ [Inl f]"
  by (simp_all add: trace_assign outline_append)

subsection \<open>Effect of \<open>SysTick_Set_Counter\<close>\<close>

lemma mem_Set_Counter:
  "mem (SysTick_Set_Counter t s) = (mem s)(SYSTICK_RELOAD := t - 1, SYSTICK_CURRENT := 0)"
  by (simp add: SysTick_Set_Counter_def access_defs Let_def bus_write_def reg_defs)

lemma speed_Set_Counter: "speed (SysTick_Set_Counter t s) = speed s"
  by (simp add: SysTick_Set_Counter_def access_defs Let_def)

lemma trace_Set_Counter:
  "trace (SysTick_Set_Counter t s) =
     trace s @ [Call ''SysTick_Set_Counter'' [t], Write SYSTICK_RELOAD (t - 1),
                Write SYSTICK_CURRENT 0]"
  by (simp add: SysTick_Set_Counter_def access_defs Let_def)

lemma outline_Set_Counter:
  "outline (trace (SysTick_Set_Counter t s)) =
     outline (trace s) @ [Inl ''SysTick_Set_Counter'', Inr SYSTICK_RELOAD, Inr SYSTICK_CURRENT]"
  by (simp add: trace_Set_Counter outline_append)

subsection \<open>Effect of \<open>EXTI15_10_IRQHandler\<close>\<close>

lemma speed_handler:
  "speed (EXTI15_10_IRQHandler s) = word_of_int (uint (speed s) mod 3 + 1)"
  by (simp add: EXTI15_10_IRQHandler_def access_defs Let_def SysTick_Set_Counter_def)

lemma trace_handler:
  "trace (EXTI15_10_IRQHandler s) =
     (let v' = word_of_int (uint (speed s) mod 3 + 1) :: u8;
          c = (if v' = 1 then HIGH_SPEED else if v' = 2 then MEDIUM_SPEED else LOW_SPEED)
      in trace s @
         [Call ''EXTI15_10_IRQHandler'' [],
          Read EXTI_PR (mem s EXTI_PR),
          Write EXTI_PR (mem s EXTI_PR OR push_bit 13 1),
          ReadSpeed (speed s),
          WriteSpeed v',
          ReadSpeed v',
          Call ''SysTick_Set_Counter'' [c],
          Write SYSTICK_RELOAD (c - 1),
          Write SYSTICK_CURRENT 0])"
  using succ_range [of "speed s"]
  by (auto simp add: EXTI15_10_IRQHandler_def access_defs Let_def SysTick_Set_Counter_def)

lemma mem_handler:
  "mem (EXTI15_10_IRQHandler s) =
     (let v' = word_of_int (uint (speed s) mod 3 + 1) :: u8;
          c = (if v' = 1 then HIGH_SPEED else if v' = 2 then MEDIUM_SPEED else LOW_SPEED)
      in (mem s)(EXTI_PR := 0, SYSTICK_RELOAD := c - 1, SYSTICK_CURRENT := 0))"
  using succ_range [of "speed s"]
  by (auto simp add: EXTI15_10_IRQHandler_def access_defs Let_def SysTick_Set_Counter_def
      bus_write_def reg_defs w1c_all)

subsection \<open>Effect of \<open>SysTick_Handler\<close>\<close>

lemma mem_Tick:
  "mem (SysTick_Handler s) = (mem s)(GPIOA_ODR := mem s GPIOA_ODR XOR push_bit 5 1)"
  by (simp add: SysTick_Handler_def Let_def mem_xor_assign mem_enter reg_defs)

lemma speed_Tick: "speed (SysTick_Handler s) = speed s"
  by (simp add: SysTick_Handler_def Let_def speed_assign)

lemma trace_Tick:
  "trace (SysTick_Handler s) =
     trace s @ [Call ''SysTick_Handler'' [], Read GPIOA_ODR (mem s GPIOA_ODR),
                Write GPIOA_ODR (mem s GPIOA_ODR XOR push_bit 5 1)]"
  by (simp add: SysTick_Handler_def Let_def trace_assign mem_enter)

section \<open>The tick source: \<open>SysTick_Set_Counter\<close>\<close>

text \<open>
  Claim C4. For every \<open>ticks \<ge> 1\<close>, \<open>SysTick_Set_Counter ticks\<close> writes \<open>ticks - 1\<close>
  (the natural-number difference, no wrap-around) into the reload register and zero
  into the current-count register, and changes nothing else: every other register
  and \<open>speed\<close> are as before, and the function's accesses are exactly these two writes.
\<close>

theorem SysTick_Set_Counter_writes:
  assumes "1 \<le> unat ticks"
  shows "mem (SysTick_Set_Counter ticks s) =
           (mem s)(SYSTICK_RELOAD := word_of_nat (unat ticks - 1), SYSTICK_CURRENT := 0)
       \<and> unat (mem (SysTick_Set_Counter ticks s) SYSTICK_RELOAD) = unat ticks - 1
       \<and> mem (SysTick_Set_Counter ticks s) SYSTICK_CURRENT = 0
       \<and> speed (SysTick_Set_Counter ticks s) = speed s
       \<and> trace (SysTick_Set_Counter ticks s) =
           trace s @ [Call ''SysTick_Set_Counter'' [ticks],
                      Write SYSTICK_RELOAD (word_of_nat (unat ticks - 1)),
                      Write SYSTICK_CURRENT 0]"
proof -
  from assms have "ticks \<noteq> 0"
    by auto
  then have u: "unat (ticks - 1) = unat ticks - 1"
    by (simp add: unat_minus_one)
  have w: "word_of_nat (unat ticks - 1) = ticks - 1"
    unfolding u [symmetric] by simp
  have ne: "SYSTICK_RELOAD \<noteq> SYSTICK_CURRENT"
    by (simp add: reg_defs)
  have r: "mem (SysTick_Set_Counter ticks s) SYSTICK_RELOAD = ticks - 1"
    using ne by (simp add: mem_Set_Counter)
  show ?thesis
    unfolding w r u
    by (simp add: mem_Set_Counter speed_Set_Counter trace_Set_Counter)
qed

text \<open>The theorem at \<open>ticks = 1\<close>, the smallest admissible count, from an all-zero reset state.\<close>

theorem SysTick_Set_Counter_writes_witness:
  "1 \<le> unat (1 :: u32)
   \<and> mem (SysTick_Set_Counter 1 (reset zero_mem)) SYSTICK_RELOAD = 0
   \<and> mem (SysTick_Set_Counter 1 (reset zero_mem)) SYSTICK_CURRENT = 0
   \<and> trace (SysTick_Set_Counter 1 (reset zero_mem)) =
        [Call ''SysTick_Set_Counter'' [1], Write SYSTICK_RELOAD 0, Write SYSTICK_CURRENT 0]"
  using SysTick_Set_Counter_writes [of 1 "reset zero_mem"]
  by (simp add: reset_def reg_defs)

text \<open>Outside the precondition the subtraction wraps: \<open>ticks = 0\<close> programs the maximum.\<close>

lemma SysTick_Set_Counter_zero_wraps:
  "mem (SysTick_Set_Counter 0 s) SYSTICK_RELOAD = 0xFFFFFFFF"
  by (simp add: mem_Set_Counter reg_defs)

section \<open>The tick handler\<close>

text \<open>
  Claim C7. \<open>SysTick_Handler\<close> flips bit 5 of the GPIOA output-data register and
  nothing else: the register's new value differs from the old one in exactly that bit,
  every other register and \<open>speed\<close> are unchanged, its only accesses are one read and
  one write of that register, and two invocations in a row restore the registers.
\<close>

theorem SysTick_Handler_toggles_PA5_only:
  "mem (SysTick_Handler s) = (mem s)(GPIOA_ODR := mem s GPIOA_ODR XOR push_bit 5 1)
   \<and> bit (mem (SysTick_Handler s) GPIOA_ODR) 5 = (\<not> bit (mem s GPIOA_ODR) 5)
   \<and> mem (SysTick_Handler s) GPIOA_ODR XOR mem s GPIOA_ODR = push_bit 5 1
   \<and> speed (SysTick_Handler s) = speed s
   \<and> trace (SysTick_Handler s) =
        trace s @ [Call ''SysTick_Handler'' [], Read GPIOA_ODR (mem s GPIOA_ODR),
                   Write GPIOA_ODR (mem s GPIOA_ODR XOR push_bit 5 1)]
   \<and> mem (SysTick_Handler (SysTick_Handler s)) = mem s
   \<and> speed (SysTick_Handler (SysTick_Handler s)) = speed s"
proof -
  have flip: "bit (mem s GPIOA_ODR XOR push_bit 5 1) 5 = (\<not> bit (mem s GPIOA_ODR) 5)"
    by (simp add: bit_simps)
  have diff: "(mem s GPIOA_ODR XOR push_bit 5 1) XOR mem s GPIOA_ODR = push_bit 5 1"
    by (simp add: xor.commute xor.left_commute)
  have twice: "(mem s GPIOA_ODR XOR push_bit 5 1) XOR push_bit 5 1 = mem s GPIOA_ODR"
    by (simp add: xor.assoc)
  have twice_mem: "mem (SysTick_Handler (SysTick_Handler s)) = mem s"
    unfolding mem_Tick [of "SysTick_Handler s"] unfolding mem_Tick [of s]
    using twice by (simp del: push_bit_numeral)
  show ?thesis
    using flip diff twice_mem
    by (simp add: mem_Tick speed_Tick trace_Tick del: push_bit_numeral)
qed

section \<open>Clock enable\<close>

lemma mem_RCC_Init:
  "mem (RCC_Init s) =
     (mem s)(RCC_AHB1ENR := (mem s RCC_AHB1ENR OR push_bit 0 1) OR push_bit 2 1,
             RCC_APB2ENR := mem s RCC_APB2ENR OR push_bit 14 1)"
  by (simp add: RCC_Init_def Let_def mem_or_assign mem_enter reg_defs)

lemma speed_RCC_Init: "speed (RCC_Init s) = speed s"
  by (simp add: RCC_Init_def Let_def speed_assign)

lemma outline_RCC_Init:
  "outline (trace (RCC_Init s)) =
     outline (trace s) @ [Inl ''RCC_Init'', Inr RCC_AHB1ENR, Inr RCC_AHB1ENR, Inr RCC_APB2ENR]"
  by (simp add: RCC_Init_def Let_def outline_assign)

text \<open>
  Claim C8. \<open>RCC_Init\<close> is idempotent: from every state, running it twice leaves the
  same register contents (and the same \<open>speed\<close>) as running it once. One run sets bits
  0 and 2 of \<open>RCC_AHB1ENR\<close> and bit 14 of \<open>RCC_APB2ENR\<close>; setting them again changes
  nothing.
\<close>

theorem RCC_Init_idempotent:
  "mem (RCC_Init (RCC_Init s)) = mem (RCC_Init s)
   \<and> speed (RCC_Init (RCC_Init s)) = speed (RCC_Init s)
   \<and> mem (RCC_Init s) RCC_AHB1ENR = mem s RCC_AHB1ENR OR 5
   \<and> mem (RCC_Init s) RCC_APB2ENR = mem s RCC_APB2ENR OR 0x4000"
proof -
  have ne: "RCC_AHB1ENR \<noteq> RCC_APB2ENR"
    by (simp add: reg_defs)
  have ahb: "mem (RCC_Init s) RCC_AHB1ENR = mem s RCC_AHB1ENR OR 5" for s
    using ne by (simp add: mem_RCC_Init or.assoc)
  have apb: "mem (RCC_Init s) RCC_APB2ENR = mem s RCC_APB2ENR OR 0x4000" for s
    by (simp add: mem_RCC_Init)
  have rest: "a \<noteq> RCC_AHB1ENR \<Longrightarrow> a \<noteq> RCC_APB2ENR \<Longrightarrow> mem (RCC_Init s) a = mem s a"
    for s a
    by (simp add: mem_RCC_Init)
  have "mem (RCC_Init (RCC_Init s)) a = mem (RCC_Init s) a" for a
  proof (cases "a = RCC_AHB1ENR \<or> a = RCC_APB2ENR")
    case True
    then show ?thesis
      by (auto simp add: ahb apb or.assoc)
  next
    case False
    then show ?thesis
      by (simp add: rest)
  qed
  then have "mem (RCC_Init (RCC_Init s)) = mem (RCC_Init s)"
    by (rule ext)
  then show ?thesis
    by (simp add: speed_RCC_Init ahb apb)
qed

section \<open>The speed state machine\<close>

lemma speed_handler_cases:
  "speed s = 1 \<Longrightarrow> speed (EXTI15_10_IRQHandler s) = 2"
  "speed s = 2 \<Longrightarrow> speed (EXTI15_10_IRQHandler s) = 3"
  "speed s = 3 \<Longrightarrow> speed (EXTI15_10_IRQHandler s) = 1"
  by (simp_all add: speed_handler)

lemma speed_presses:
  "speed s = 1 \<Longrightarrow>
   speed ((EXTI15_10_IRQHandler ^^ N) s) =
     (if N mod 3 = 0 then 1 else if N mod 3 = 1 then 2 else 3)"
proof (induction N)
  case 0
  then show ?case
    by simp
next
  case (Suc N)
  have "N mod 3 = 0 \<or> N mod 3 = 1 \<or> N mod 3 = 2"
    by presburger
  then show ?case
  proof (elim disjE)
    assume m: "N mod 3 = 0"
    then have "Suc N mod 3 = 1"
      by presburger
    with m Suc show ?thesis
      by (simp add: speed_handler_cases)
  next
    assume m: "N mod 3 = 1"
    then have "Suc N mod 3 = 2"
      by presburger
    with m Suc show ?thesis
      by (simp add: speed_handler_cases)
  next
    assume m: "N mod 3 = 2"
    then have "Suc N mod 3 = 0"
      by presburger
    with m Suc show ?thesis
      by (simp add: speed_handler_cases)
  qed
qed

text \<open>
  Claim C3. From any state with \<open>speed = 1\<close> (Fast, the reset value), \<open>N\<close> invocations
  of \<open>EXTI15_10_IRQHandler\<close> leave \<open>speed\<close> advanced by \<open>N mod 3\<close> positions in the
  cycle 1 (Fast), 2 (Medium), 3 (Slow); after three invocations it is 1 again.
\<close>

theorem speed_after_N_presses:
  assumes "speed s = 1"
  shows "speed ((EXTI15_10_IRQHandler ^^ N) s) =
           (if N mod 3 = 0 then 1 else if N mod 3 = 1 then 2 else 3)
       \<and> unat (speed ((EXTI15_10_IRQHandler ^^ N) s)) = N mod 3 + 1
       \<and> speed ((EXTI15_10_IRQHandler ^^ 3) s) = 1"
proof -
  have a: "speed ((EXTI15_10_IRQHandler ^^ N) s) =
           (if N mod 3 = 0 then 1 else if N mod 3 = 1 then 2 else 3)" for N
    using assms by (rule speed_presses)
  have "N mod 3 = 0 \<or> N mod 3 = 1 \<or> N mod 3 = 2"
    by presburger
  then have b: "unat (speed ((EXTI15_10_IRQHandler ^^ N) s)) = N mod 3 + 1"
    unfolding a by auto
  have c: "speed ((EXTI15_10_IRQHandler ^^ 3) s) = 1"
    unfolding a by simp
  show ?thesis
    using a [of N] b c by simp
qed

text \<open>The theorem from the all-zero reset state, at four presses (one full cycle and one more).\<close>

theorem speed_after_N_presses_witness:
  "speed (reset zero_mem) = 1
   \<and> speed ((EXTI15_10_IRQHandler ^^ 4) (reset zero_mem)) = 2
   \<and> speed ((EXTI15_10_IRQHandler ^^ 3) (reset zero_mem)) = 1"
proof -
  have h: "speed (reset zero_mem) = 1"
    by (simp add: reset_def)
  show ?thesis
    using h speed_after_N_presses [OF h, of 4] by simp
qed

section \<open>The startup sequence\<close>

lemma outline_GPIOA_Init:
  "outline (trace (GPIOA_Init s)) =
     outline (trace s) @
       [Inl ''GPIOA_Init'', Inr GPIOA_MODER, Inr GPIOA_MODER, Inr GPIOA_OTYPER,
        Inr GPIOA_OSPEEDER, Inr GPIOA_PUPDR]"
  by (simp add: GPIOA_Init_def Let_def outline_assign)

lemma outline_GPIOC_Init:
  "outline (trace (GPIOC_Init s)) =
     outline (trace s) @ [Inl ''GPIOC_Init'', Inr GPIOC_MODER, Inr GPIOC_PUPDR, Inr GPIOC_PUPDR]"
  by (simp add: GPIOC_Init_def Let_def outline_assign)

lemma outline_SysTick_Init:
  "outline (trace (SysTick_Init t s)) =
     outline (trace s) @
       [Inl ''SysTick_Init'', Inl ''SysTick_Set_Counter'', Inr SYSTICK_RELOAD,
        Inr SYSTICK_CURRENT, Inr SYSTICK_CTRL, Inr SYSTICK_CTRL, Inr SYSTICK_CTRL]"
  by (simp add: SysTick_Init_def Let_def outline_assign outline_Set_Counter)

lemma outline_EXTI13_Init:
  "outline (trace (EXTI13_Init s)) =
     outline (trace s) @
       [Inl ''EXTI13_Init'', Inr NVIC_ISER1, Inr SYSCFG_EXTICR4, Inr SYSCFG_EXTICR4,
        Inr EXTI_EMR, Inr EXTI_RTSR, Inr EXTI_FTSR, Inr EXTI_IMR]"
  by (simp add: EXTI13_Init_def Let_def outline_assign)

lemma outline_startup:
  "outline (trace (startup s)) =
     outline (trace s) @
       [Inl ''RCC_Init'', Inr RCC_AHB1ENR, Inr RCC_AHB1ENR, Inr RCC_APB2ENR,
        Inl ''GPIOA_Init'', Inr GPIOA_MODER, Inr GPIOA_MODER, Inr GPIOA_OTYPER,
        Inr GPIOA_OSPEEDER, Inr GPIOA_PUPDR,
        Inl ''GPIOC_Init'', Inr GPIOC_MODER, Inr GPIOC_PUPDR, Inr GPIOC_PUPDR,
        Inl ''SysTick_Init'', Inl ''SysTick_Set_Counter'', Inr SYSTICK_RELOAD,
        Inr SYSTICK_CURRENT, Inr SYSTICK_CTRL, Inr SYSTICK_CTRL, Inr SYSTICK_CTRL,
        Inl ''EXTI13_Init'', Inr NVIC_ISER1, Inr SYSCFG_EXTICR4, Inr SYSCFG_EXTICR4,
        Inr EXTI_EMR, Inr EXTI_RTSR, Inr EXTI_FTSR, Inr EXTI_IMR]"
  by (simp add: startup_def Let_def outline_RCC_Init outline_GPIOA_Init outline_GPIOC_Init
      outline_SysTick_Init outline_EXTI13_Init)

lemma speed_inits:
  "speed (GPIOA_Init s) = speed s"
  "speed (GPIOC_Init s) = speed s"
  "speed (SysTick_Init t s) = speed s"
  "speed (EXTI13_Init s) = speed s"
  by (simp_all add: GPIOA_Init_def GPIOC_Init_def SysTick_Init_def EXTI13_Init_def Let_def
      speed_assign speed_Set_Counter)

lemma speed_startup: "speed (startup s) = speed s"
  by (simp add: startup_def Let_def speed_inits speed_RCC_Init)

lemma mem_startup_SysTick:
  "mem (startup s) SYSTICK_RELOAD = HIGH_SPEED - 1"
  "mem (startup s) SYSTICK_CURRENT = 0"
  by (simp_all add: startup_def SysTick_Init_def EXTI13_Init_def Let_def
      mem_or_assign mem_and_assign mem_enter mem_Set_Counter reg_defs)

lemma Set_Counter_called_in_SysTick_Init:
  "Call ''SysTick_Set_Counter'' [t] \<in> set (trace (SysTick_Init t s))"
  by (simp add: SysTick_Init_def Let_def trace_assign trace_Set_Counter)

lemma trace_kept_by_EXTI13_Init: "e \<in> set (trace s) \<Longrightarrow> e \<in> set (trace (EXTI13_Init s))"
  by (simp add: EXTI13_Init_def Let_def trace_assign)

text \<open>The registers each set-up function leaves, and the accesses it makes.\<close>

lemma mem_GPIOA_Init:
  "mem (GPIOA_Init s) =
     (mem s)(GPIOA_MODER := (mem s GPIOA_MODER AND NOT 0xC00) OR 0x400,
             GPIOA_OTYPER := mem s GPIOA_OTYPER AND NOT 0x20,
             GPIOA_OSPEEDER := mem s GPIOA_OSPEEDER AND NOT 0xC00,
             GPIOA_PUPDR := mem s GPIOA_PUPDR AND NOT 0xC00)"
  by (simp add: GPIOA_Init_def Let_def mem_or_assign mem_and_assign mem_enter reg_defs)

lemma mem_GPIOC_Init:
  "mem (GPIOC_Init s) =
     (mem s)(GPIOC_MODER := mem s GPIOC_MODER AND NOT 0xC000000,
             GPIOC_PUPDR := (mem s GPIOC_PUPDR AND NOT 0xC000000) OR 0x4000000)"
  by (simp add: GPIOC_Init_def Let_def mem_or_assign mem_and_assign mem_enter reg_defs)

lemma mem_SysTick_Init:
  "mem (SysTick_Init t s) =
     (mem s)(SYSTICK_RELOAD := t - 1, SYSTICK_CURRENT := 0,
             SYSTICK_CTRL := mem s SYSTICK_CTRL OR 7)"
  by (simp add: SysTick_Init_def Let_def mem_or_assign mem_enter mem_Set_Counter reg_defs
      or.assoc)

lemma mem_EXTI13_Init:
  "mem (EXTI13_Init s) =
     (mem s)(NVIC_ISER1 := mem s NVIC_ISER1 OR 0x100,
             SYSCFG_EXTICR4 := (mem s SYSCFG_EXTICR4 AND NOT 0xF0) OR 0x20,
             EXTI_EMR := mem s EXTI_EMR AND NOT 0x2000,
             EXTI_RTSR := mem s EXTI_RTSR AND NOT 0x2000,
             EXTI_FTSR := mem s EXTI_FTSR OR 0x2000,
             EXTI_IMR := mem s EXTI_IMR OR 0x2000)"
  by (simp add: EXTI13_Init_def Let_def mem_or_assign mem_and_assign mem_enter reg_defs)

lemma trace_RCC_Init:
  "trace (RCC_Init s) =
     trace s @
       [Call ''RCC_Init'' [],
        Read RCC_AHB1ENR (mem s RCC_AHB1ENR),
        Write RCC_AHB1ENR (mem s RCC_AHB1ENR OR 0x1),
        Read RCC_AHB1ENR (mem s RCC_AHB1ENR OR 0x1),
        Write RCC_AHB1ENR (mem s RCC_AHB1ENR OR 0x5),
        Read RCC_APB2ENR (mem s RCC_APB2ENR),
        Write RCC_APB2ENR (mem s RCC_APB2ENR OR 0x4000)]"
  by (simp add: RCC_Init_def Let_def trace_assign mem_or_assign mem_enter reg_defs or.assoc)

lemma trace_GPIOA_Init:
  "trace (GPIOA_Init s) =
     trace s @
       [Call ''GPIOA_Init'' [],
        Read GPIOA_MODER (mem s GPIOA_MODER),
        Write GPIOA_MODER (mem s GPIOA_MODER AND NOT 0xC00),
        Read GPIOA_MODER (mem s GPIOA_MODER AND NOT 0xC00),
        Write GPIOA_MODER ((mem s GPIOA_MODER AND NOT 0xC00) OR 0x400),
        Read GPIOA_OTYPER (mem s GPIOA_OTYPER),
        Write GPIOA_OTYPER (mem s GPIOA_OTYPER AND NOT 0x20),
        Read GPIOA_OSPEEDER (mem s GPIOA_OSPEEDER),
        Write GPIOA_OSPEEDER (mem s GPIOA_OSPEEDER AND NOT 0xC00),
        Read GPIOA_PUPDR (mem s GPIOA_PUPDR),
        Write GPIOA_PUPDR (mem s GPIOA_PUPDR AND NOT 0xC00)]"
  by (simp add: GPIOA_Init_def Let_def trace_assign mem_or_assign mem_and_assign mem_enter
      reg_defs)

lemma trace_GPIOC_Init:
  "trace (GPIOC_Init s) =
     trace s @
       [Call ''GPIOC_Init'' [],
        Read GPIOC_MODER (mem s GPIOC_MODER),
        Write GPIOC_MODER (mem s GPIOC_MODER AND NOT 0xC000000),
        Read GPIOC_PUPDR (mem s GPIOC_PUPDR),
        Write GPIOC_PUPDR (mem s GPIOC_PUPDR AND NOT 0xC000000),
        Read GPIOC_PUPDR (mem s GPIOC_PUPDR AND NOT 0xC000000),
        Write GPIOC_PUPDR ((mem s GPIOC_PUPDR AND NOT 0xC000000) OR 0x4000000)]"
  by (simp add: GPIOC_Init_def Let_def trace_assign mem_or_assign mem_and_assign mem_enter
      reg_defs)

lemma trace_SysTick_Init:
  "trace (SysTick_Init t s) =
     trace s @
       [Call ''SysTick_Init'' [t],
        Call ''SysTick_Set_Counter'' [t],
        Write SYSTICK_RELOAD (t - 1),
        Write SYSTICK_CURRENT 0,
        Read SYSTICK_CTRL (mem s SYSTICK_CTRL),
        Write SYSTICK_CTRL (mem s SYSTICK_CTRL OR 0x4),
        Read SYSTICK_CTRL (mem s SYSTICK_CTRL OR 0x4),
        Write SYSTICK_CTRL (mem s SYSTICK_CTRL OR 0x6),
        Read SYSTICK_CTRL (mem s SYSTICK_CTRL OR 0x6),
        Write SYSTICK_CTRL (mem s SYSTICK_CTRL OR 0x7)]"
  by (simp add: SysTick_Init_def Let_def trace_assign mem_or_assign mem_enter
      trace_Set_Counter mem_Set_Counter reg_defs or.assoc)

lemma trace_EXTI13_Init:
  "trace (EXTI13_Init s) =
     trace s @
       [Call ''EXTI13_Init'' [],
        Read NVIC_ISER1 (mem s NVIC_ISER1),
        Write NVIC_ISER1 (mem s NVIC_ISER1 OR 0x100),
        Read SYSCFG_EXTICR4 (mem s SYSCFG_EXTICR4),
        Write SYSCFG_EXTICR4 (mem s SYSCFG_EXTICR4 AND NOT 0xF0),
        Read SYSCFG_EXTICR4 (mem s SYSCFG_EXTICR4 AND NOT 0xF0),
        Write SYSCFG_EXTICR4 ((mem s SYSCFG_EXTICR4 AND NOT 0xF0) OR 0x20),
        Read EXTI_EMR (mem s EXTI_EMR),
        Write EXTI_EMR (mem s EXTI_EMR AND NOT 0x2000),
        Read EXTI_RTSR (mem s EXTI_RTSR),
        Write EXTI_RTSR (mem s EXTI_RTSR AND NOT 0x2000),
        Read EXTI_FTSR (mem s EXTI_FTSR),
        Write EXTI_FTSR (mem s EXTI_FTSR OR 0x2000),
        Read EXTI_IMR (mem s EXTI_IMR),
        Write EXTI_IMR (mem s EXTI_IMR OR 0x2000)]"
  by (simp add: EXTI13_Init_def Let_def trace_assign mem_or_assign mem_and_assign mem_enter
      reg_defs)

text \<open>
  Claim C6. For every number of loop iterations, \<open>main\<close> is still running and has not
  returned, and the state in which it loops is the one the five set-up calls leave.
  The log of that state is exactly the accesses of \<open>RCC_Init\<close>, \<open>GPIOA_Init\<close>,
  \<open>GPIOC_Init\<close>, \<open>SysTick_Init\<close> (which enters \<open>SysTick_Set_Counter\<close>) and
  \<open>EXTI13_Init\<close>, each entered once and in this order, with the values they write;
  the writes that enable the edge interrupt (\<open>NVIC_ISER1\<close>, \<open>EXTI_IMR\<close>) come after
  all writes to the GPIOA and SysTick registers. The registers end up configured as
  written and no other register changes.
\<close>

theorem main_configures_in_order_and_never_returns:
  "main n s = Running (startup s)
   \<and> (\<forall>k r. main k s \<noteq> Returned r)
   \<and> speed (startup s) = speed s
   \<and> mem (startup s) =
     (mem s)
       (RCC_AHB1ENR := mem s RCC_AHB1ENR OR 0x5,
        RCC_APB2ENR := mem s RCC_APB2ENR OR 0x4000,
        GPIOA_MODER := (mem s GPIOA_MODER AND NOT 0xC00) OR 0x400,
        GPIOA_OTYPER := mem s GPIOA_OTYPER AND NOT 0x20,
        GPIOA_OSPEEDER := mem s GPIOA_OSPEEDER AND NOT 0xC00,
        GPIOA_PUPDR := mem s GPIOA_PUPDR AND NOT 0xC00,
        GPIOC_MODER := mem s GPIOC_MODER AND NOT 0xC000000,
        GPIOC_PUPDR := (mem s GPIOC_PUPDR AND NOT 0xC000000) OR 0x4000000,
        SYSTICK_RELOAD := HIGH_SPEED - 1,
        SYSTICK_CURRENT := 0,
        SYSTICK_CTRL := mem s SYSTICK_CTRL OR 0x7,
        NVIC_ISER1 := mem s NVIC_ISER1 OR 0x100,
        SYSCFG_EXTICR4 := (mem s SYSCFG_EXTICR4 AND NOT 0xF0) OR 0x20,
        EXTI_EMR := mem s EXTI_EMR AND NOT 0x2000,
        EXTI_RTSR := mem s EXTI_RTSR AND NOT 0x2000,
        EXTI_FTSR := mem s EXTI_FTSR OR 0x2000,
        EXTI_IMR := mem s EXTI_IMR OR 0x2000)
   \<and> trace (startup s) =
     trace s @
       [Call ''RCC_Init'' [],
        Read RCC_AHB1ENR (mem s RCC_AHB1ENR),
        Write RCC_AHB1ENR (mem s RCC_AHB1ENR OR 0x1),
        Read RCC_AHB1ENR (mem s RCC_AHB1ENR OR 0x1),
        Write RCC_AHB1ENR (mem s RCC_AHB1ENR OR 0x5),
        Read RCC_APB2ENR (mem s RCC_APB2ENR),
        Write RCC_APB2ENR (mem s RCC_APB2ENR OR 0x4000),
        Call ''GPIOA_Init'' [],
        Read GPIOA_MODER (mem s GPIOA_MODER),
        Write GPIOA_MODER (mem s GPIOA_MODER AND NOT 0xC00),
        Read GPIOA_MODER (mem s GPIOA_MODER AND NOT 0xC00),
        Write GPIOA_MODER ((mem s GPIOA_MODER AND NOT 0xC00) OR 0x400),
        Read GPIOA_OTYPER (mem s GPIOA_OTYPER),
        Write GPIOA_OTYPER (mem s GPIOA_OTYPER AND NOT 0x20),
        Read GPIOA_OSPEEDER (mem s GPIOA_OSPEEDER),
        Write GPIOA_OSPEEDER (mem s GPIOA_OSPEEDER AND NOT 0xC00),
        Read GPIOA_PUPDR (mem s GPIOA_PUPDR),
        Write GPIOA_PUPDR (mem s GPIOA_PUPDR AND NOT 0xC00),
        Call ''GPIOC_Init'' [],
        Read GPIOC_MODER (mem s GPIOC_MODER),
        Write GPIOC_MODER (mem s GPIOC_MODER AND NOT 0xC000000),
        Read GPIOC_PUPDR (mem s GPIOC_PUPDR),
        Write GPIOC_PUPDR (mem s GPIOC_PUPDR AND NOT 0xC000000),
        Read GPIOC_PUPDR (mem s GPIOC_PUPDR AND NOT 0xC000000),
        Write GPIOC_PUPDR ((mem s GPIOC_PUPDR AND NOT 0xC000000) OR 0x4000000),
        Call ''SysTick_Init'' [HIGH_SPEED],
        Call ''SysTick_Set_Counter'' [HIGH_SPEED],
        Write SYSTICK_RELOAD (HIGH_SPEED - 1),
        Write SYSTICK_CURRENT 0,
        Read SYSTICK_CTRL (mem s SYSTICK_CTRL),
        Write SYSTICK_CTRL (mem s SYSTICK_CTRL OR 0x4),
        Read SYSTICK_CTRL (mem s SYSTICK_CTRL OR 0x4),
        Write SYSTICK_CTRL (mem s SYSTICK_CTRL OR 0x6),
        Read SYSTICK_CTRL (mem s SYSTICK_CTRL OR 0x6),
        Write SYSTICK_CTRL (mem s SYSTICK_CTRL OR 0x7),
        Call ''EXTI13_Init'' [],
        Read NVIC_ISER1 (mem s NVIC_ISER1),
        Write NVIC_ISER1 (mem s NVIC_ISER1 OR 0x100),
        Read SYSCFG_EXTICR4 (mem s SYSCFG_EXTICR4),
        Write SYSCFG_EXTICR4 (mem s SYSCFG_EXTICR4 AND NOT 0xF0),
        Read SYSCFG_EXTICR4 (mem s SYSCFG_EXTICR4 AND NOT 0xF0),
        Write SYSCFG_EXTICR4 ((mem s SYSCFG_EXTICR4 AND NOT 0xF0) OR 0x20),
        Read EXTI_EMR (mem s EXTI_EMR),
        Write EXTI_EMR (mem s EXTI_EMR AND NOT 0x2000),
        Read EXTI_RTSR (mem s EXTI_RTSR),
        Write EXTI_RTSR (mem s EXTI_RTSR AND NOT 0x2000),
        Read EXTI_FTSR (mem s EXTI_FTSR),
        Write EXTI_FTSR (mem s EXTI_FTSR OR 0x2000),
        Read EXTI_IMR (mem s EXTI_IMR),
        Write EXTI_IMR (mem s EXTI_IMR OR 0x2000)]
   \<and> outline (trace (startup s)) =
     outline (trace s) @
       [Inl ''RCC_Init'', Inr RCC_AHB1ENR, Inr RCC_AHB1ENR, Inr RCC_APB2ENR,
        Inl ''GPIOA_Init'', Inr GPIOA_MODER, Inr GPIOA_MODER, Inr GPIOA_OTYPER,
        Inr GPIOA_OSPEEDER, Inr GPIOA_PUPDR,
        Inl ''GPIOC_Init'', Inr GPIOC_MODER, Inr GPIOC_PUPDR, Inr GPIOC_PUPDR,
        Inl ''SysTick_Init'', Inl ''SysTick_Set_Counter'', Inr SYSTICK_RELOAD,
        Inr SYSTICK_CURRENT, Inr SYSTICK_CTRL, Inr SYSTICK_CTRL, Inr SYSTICK_CTRL,
        Inl ''EXTI13_Init'', Inr NVIC_ISER1, Inr SYSCFG_EXTICR4, Inr SYSCFG_EXTICR4,
        Inr EXTI_EMR, Inr EXTI_RTSR, Inr EXTI_FTSR, Inr EXTI_IMR]"
  (is "?running \<and> ?never \<and> ?speed \<and> ?mem \<and> ?trace \<and> ?outline")
proof (intro conjI)
  show ?running
    by (simp add: main_def startup_def Let_def while_1_Running)
  show ?never
    by (simp add: main_def Let_def while_1_Running)
  show ?speed
    by (rule speed_startup)
  show ?mem
    by (simp add: startup_def Let_def mem_RCC_Init mem_GPIOA_Init mem_GPIOC_Init
        mem_SysTick_Init mem_EXTI13_Init reg_defs or.assoc)
  show ?trace
    by (simp add: startup_def Let_def
        trace_RCC_Init trace_GPIOA_Init trace_GPIOC_Init trace_SysTick_Init trace_EXTI13_Init
        mem_RCC_Init mem_GPIOA_Init mem_GPIOC_Init mem_SysTick_Init reg_defs)
  show ?outline
    by (rule outline_startup)
qed

text \<open>
  Claim C5. In the state reached when the set-up has run from reset, \<open>speed\<close> is 1
  (Fast) and the tick source has been programmed with the fast count:
  \<open>SysTick_Set_Counter\<close> was called with \<open>HIGH_SPEED\<close>, and the reload register holds
  what that call stores, \<open>HIGH_SPEED - 1 = 3999999\<close>, with the current count zeroed.
\<close>

theorem startup_state:
  "speed (startup (reset m)) = 1
   \<and> Call ''SysTick_Set_Counter'' [HIGH_SPEED] \<in> set (trace (startup (reset m)))
   \<and> mem (startup (reset m)) SYSTICK_RELOAD =
       mem (SysTick_Set_Counter HIGH_SPEED (reset m)) SYSTICK_RELOAD
   \<and> mem (startup (reset m)) SYSTICK_RELOAD = HIGH_SPEED - 1
   \<and> unat (mem (startup (reset m)) SYSTICK_RELOAD) = 3999999
   \<and> mem (startup (reset m)) SYSTICK_CURRENT = 0"
proof -
  have sp: "speed (startup (reset m)) = 1"
    by (simp add: speed_startup reset_def)
  have call: "Call ''SysTick_Set_Counter'' [HIGH_SPEED] \<in> set (trace (startup (reset m)))"
    unfolding startup_def Let_def
    by (rule trace_kept_by_EXTI13_Init) (rule Set_Counter_called_in_SysTick_Init)
  have same: "mem (SysTick_Set_Counter HIGH_SPEED (reset m)) SYSTICK_RELOAD = HIGH_SPEED - 1"
    by (simp add: mem_Set_Counter reg_defs)
  have n: "unat (HIGH_SPEED - 1) = 3999999"
    by (simp add: HIGH_SPEED_def)
  show ?thesis
    using sp call n by (simp add: mem_startup_SysTick same)
qed

section \<open>The speed-change handler\<close>

lemma accesses_of_append: "accesses_of a (xs @ ys) = accesses_of a xs @ accesses_of a ys"
  by (induction a xs rule: accesses_of.induct) simp_all

lemma outline_handler:
  "outline (trace (EXTI15_10_IRQHandler s)) =
     outline (trace s) @
       [Inl ''EXTI15_10_IRQHandler'', Inr EXTI_PR,
        Inl ''SysTick_Set_Counter'', Inr SYSTICK_RELOAD, Inr SYSTICK_CURRENT]"
  by (simp add: trace_handler Let_def outline_append)

lemma pending_after_handler: "mem (EXTI15_10_IRQHandler s) EXTI_PR = 0"
  by (simp add: mem_handler Let_def reg_defs)

text \<open>
  Claim C2. An invocation of \<open>EXTI15_10_IRQHandler\<close> makes exactly these accesses, in
  this order: one read and one write of the pending register (the write has bit 13
  set), a read and a write of \<open>speed\<close> (the new value is the cyclic successor: 1 to 2,
  2 to 3, 3 to 1), a read of \<open>speed\<close> for the \<open>switch\<close>, and the call of
  \<open>SysTick_Set_Counter\<close> with the count of the new speed. When it returns, bit 13 of
  the pending register is clear.
\<close>

theorem EXTI15_10_IRQHandler_sequence:
  "trace (EXTI15_10_IRQHandler s) =
     (let v' = word_of_int (uint (speed s) mod 3 + 1) :: u8;
          c = (if v' = 1 then HIGH_SPEED else if v' = 2 then MEDIUM_SPEED else LOW_SPEED)
      in trace s @
         [Call ''EXTI15_10_IRQHandler'' [],
          Read EXTI_PR (mem s EXTI_PR),
          Write EXTI_PR (mem s EXTI_PR OR push_bit 13 1),
          ReadSpeed (speed s),
          WriteSpeed v',
          ReadSpeed v',
          Call ''SysTick_Set_Counter'' [c],
          Write SYSTICK_RELOAD (c - 1),
          Write SYSTICK_CURRENT 0])
   \<and> speed (EXTI15_10_IRQHandler (s\<lparr>speed := 1\<rparr>)) = 2
   \<and> speed (EXTI15_10_IRQHandler (s\<lparr>speed := 2\<rparr>)) = 3
   \<and> speed (EXTI15_10_IRQHandler (s\<lparr>speed := 3\<rparr>)) = 1
   \<and> \<not> bit (mem (EXTI15_10_IRQHandler s) EXTI_PR) 13"
  unfolding pending_after_handler
  using trace_handler [of s] by (simp add: speed_handler_cases)

text \<open>
  Claim C9. The handler's access to the pending register is a read followed by a
  write of the value read with bit 13 set. The value written has a 1 wherever a flag
  was pending, so on the write-1-to-clear register every pending flag is cleared, not
  only that of line 13: the register is zero when the handler returns.
\<close>

theorem pending_clear_is_read_modify_write:
  "accesses_of EXTI_PR (trace (EXTI15_10_IRQHandler s)) =
     accesses_of EXTI_PR (trace s) @
       [Read EXTI_PR (mem s EXTI_PR), Write EXTI_PR (mem s EXTI_PR OR push_bit 13 1)]
   \<and> (mem s EXTI_PR OR push_bit 13 1) AND mem s EXTI_PR = mem s EXTI_PR
   \<and> mem (EXTI15_10_IRQHandler s) EXTI_PR =
       bus_write EXTI_PR (mem s EXTI_PR) (mem s EXTI_PR OR push_bit 13 1)
   \<and> mem (EXTI15_10_IRQHandler s) EXTI_PR = 0
   \<and> (\<forall>n. \<not> bit (mem (EXTI15_10_IRQHandler s) EXTI_PR) n)"
proof -
  have ne: "EXTI_PR \<noteq> SYSTICK_RELOAD" "EXTI_PR \<noteq> SYSTICK_CURRENT"
    by (simp_all add: reg_defs)
  have acc: "accesses_of EXTI_PR (trace (EXTI15_10_IRQHandler s)) =
     accesses_of EXTI_PR (trace s) @
       [Read EXTI_PR (mem s EXTI_PR), Write EXTI_PR (mem s EXTI_PR OR push_bit 13 1)]"
    using ne by (simp add: trace_handler Let_def accesses_of_append del: push_bit_numeral)
  have sub: "(mem s EXTI_PR OR push_bit 13 1) AND mem s EXTI_PR = mem s EXTI_PR"
    by (rule bit_eqI) (auto simp add: bit_simps)
  have dev: "bus_write EXTI_PR (mem s EXTI_PR) (mem s EXTI_PR OR push_bit 13 1) = 0"
    by (simp add: bus_write_def w1c_all)
  show ?thesis
    unfolding pending_after_handler dev using acc sub by simp
qed

text \<open>
  For instance, with lines 0 and 13 both pending the handler leaves neither pending,
  whereas a write of the mask \<^verbatim>\<open>1 << 13\<close> alone would have left line 0 pending.
\<close>

lemma pending_other_line_lost:
  "mem (EXTI15_10_IRQHandler (s\<lparr>mem := (mem s)(EXTI_PR := 0x2001)\<rparr>)) EXTI_PR = 0"
  by (simp add: pending_after_handler)

lemma write_of_mask_alone_keeps_other_lines:
  "bus_write EXTI_PR 0x2001 (push_bit 13 1) = 1"
  by (simp add: bus_write_def)

lemma speed_run: "speed s \<in> {1, 2, 3} \<Longrightarrow> speed (run irqs s) \<in> {1, 2, 3}"
proof (induction irqs arbitrary: s)
  case Nil
  then show ?case
    by simp
next
  case (Cons i irqs)
  have "speed (isr i s) \<in> {1, 2, 3}"
  proof (cases i)
    case SysTick_IRQ
    with Cons.prems show ?thesis
      by (simp add: speed_Tick)
  next
    case EXTI15_10_IRQ
    then show ?thesis
      using succ_range [of "speed s"] by (simp add: speed_handler)
  qed
  then show ?case
    using Cons.IH by simp
qed

text \<open>
  Claim C10. The update \<^verbatim>\<open>speed = (speed % 3) + 1\<close> takes every \<^verbatim>\<open>uint8_t\<close> value into
  \<open>{1, 2, 3}\<close> (0 and 255, for instance, go to 1), so the \<^verbatim>\<open>switch\<close> always matches a
  case: every invocation of the handler enters \<open>SysTick_Set_Counter\<close> and writes the
  reload register with one of the three counts less one. After reset, the set-up and
  any sequence of interrupts, \<open>speed\<close> is in \<open>{1, 2, 3}\<close>.
\<close>

theorem speed_in_range_and_reload_reprogrammed:
  "speed (EXTI15_10_IRQHandler s) \<in> {1, 2, 3}
   \<and> speed (EXTI15_10_IRQHandler (s\<lparr>speed := 0\<rparr>)) = 1
   \<and> speed (EXTI15_10_IRQHandler (s\<lparr>speed := 255\<rparr>)) = 1
   \<and> outline (trace (EXTI15_10_IRQHandler s)) =
        outline (trace s) @
          [Inl ''EXTI15_10_IRQHandler'', Inr EXTI_PR,
           Inl ''SysTick_Set_Counter'', Inr SYSTICK_RELOAD, Inr SYSTICK_CURRENT]
   \<and> mem (EXTI15_10_IRQHandler s) SYSTICK_RELOAD
        \<in> {HIGH_SPEED - 1, MEDIUM_SPEED - 1, LOW_SPEED - 1}
   \<and> speed (run irqs (startup (reset m))) \<in> {1, 2, 3}"
proof -
  have a: "speed (EXTI15_10_IRQHandler s) \<in> {1, 2, 3}"
    using succ_range [of "speed s"] by (simp add: speed_handler)
  have b: "speed (EXTI15_10_IRQHandler (s\<lparr>speed := 0\<rparr>)) = 1"
          "speed (EXTI15_10_IRQHandler (s\<lparr>speed := 255\<rparr>)) = 1"
    by (simp_all add: speed_handler)
  have c: "mem (EXTI15_10_IRQHandler s) SYSTICK_RELOAD
        \<in> {HIGH_SPEED - 1, MEDIUM_SPEED - 1, LOW_SPEED - 1}"
    by (simp add: mem_handler Let_def reg_defs)
  have "speed (startup (reset m)) \<in> {1, 2, 3}"
    by (simp add: speed_startup reset_def)
  then have d: "speed (run irqs (startup (reset m))) \<in> {1, 2, 3}"
    by (rule speed_run)
  show ?thesis
    using a b c d outline_handler [of s] by simp
qed

section \<open>The reload register and the current speed\<close>

lemma reload_matches_handler: "reload_matches (EXTI15_10_IRQHandler s)"
  using succ_range [of "speed s"]
  by (auto simp add: reload_matches_def speed_handler mem_handler Let_def reg_defs)

lemma reload_matches_Tick: "reload_matches s \<Longrightarrow> reload_matches (SysTick_Handler s)"
  by (simp add: reload_matches_def speed_Tick mem_Tick reg_defs)

lemma reload_matches_startup: "reload_matches (startup (reset m))"
  by (simp add: reload_matches_def speed_startup mem_startup_SysTick reset_def)

lemma reload_matches_run: "reload_matches s \<Longrightarrow> reload_matches (run irqs s)"
proof (induction irqs arbitrary: s)
  case Nil
  then show ?case
    by simp
next
  case (Cons i irqs)
  have "reload_matches (isr i s)"
    using Cons.prems by (cases i) (simp_all add: reload_matches_handler reload_matches_Tick)
  then show ?case
    using Cons.IH by simp
qed

text \<open>
  Claim C1, as stated, fails: the reload register never holds the count itself. After
  the set-up from the all-zero reset state \<open>speed\<close> is 1 and the register holds 3999999,
  while \<open>HIGH_SPEED\<close> is 4000000.
\<close>

theorem reload_register_is_not_the_count:
  "speed (startup (reset zero_mem)) = 1
   \<and> mem (startup (reset zero_mem)) SYSTICK_RELOAD = 3999999
   \<and> HIGH_SPEED = 4000000
   \<and> mem (startup (reset zero_mem)) SYSTICK_RELOAD \<noteq> HIGH_SPEED"
  by (simp add: speed_startup mem_startup_SysTick reset_def HIGH_SPEED_def)

text \<open>
  Claim C1, amended. In every state reached from reset by the set-up followed by any
  sequence of handler invocations, and after an invocation of \<open>EXTI15_10_IRQHandler\<close>
  from any state at all, the reload register holds the count of the current speed
  less one: \<open>HIGH_SPEED - 1\<close> at speed 1, \<open>MEDIUM_SPEED - 1\<close> at 2, \<open>LOW_SPEED - 1\<close> at 3.
\<close>

theorem reload_register_tracks_speed:
  "(speed (run irqs (startup (reset m))) = 1
      \<and> mem (run irqs (startup (reset m))) SYSTICK_RELOAD = HIGH_SPEED - 1
    \<or> speed (run irqs (startup (reset m))) = 2
      \<and> mem (run irqs (startup (reset m))) SYSTICK_RELOAD = MEDIUM_SPEED - 1
    \<or> speed (run irqs (startup (reset m))) = 3
      \<and> mem (run irqs (startup (reset m))) SYSTICK_RELOAD = LOW_SPEED - 1)
   \<and> (speed (EXTI15_10_IRQHandler s) = 1
      \<and> mem (EXTI15_10_IRQHandler s) SYSTICK_RELOAD = HIGH_SPEED - 1
    \<or> speed (EXTI15_10_IRQHandler s) = 2
      \<and> mem (EXTI15_10_IRQHandler s) SYSTICK_RELOAD = MEDIUM_SPEED - 1
    \<or> speed (EXTI15_10_IRQHandler s) = 3
      \<and> mem (EXTI15_10_IRQHandler s) SYSTICK_RELOAD = LOW_SPEED - 1)"
  using reload_matches_run [OF reload_matches_startup, of irqs m] reload_matches_handler [of s]
  unfolding reload_matches_def by simp

end
